theory Spec2Isabelle
  imports Main "HOL-Library.AList" "HOL-Library.Word"
begin

unbundle bit_operations_syntax

section \<open>Python strings\<close>

text \<open>
  A Python \<open>str\<close> is modelled as a \<open>string\<close>. The character tests and case mappings
  below are Python's on ASCII text (code points below 128); the embedding is of the
  program on such text.
\<close>

definition isspace :: "char \<Rightarrow> bool" where
  \<comment> \<open>\<open>str.isspace\<close> on one ASCII character: TAB, LF, VT, FF, CR, FS, GS, RS, US, SPACE\<close>
  "isspace c \<longleftrightarrow>
     c \<in> {CHR 0x09, CHR 0x0A, CHR 0x0B, CHR 0x0C, CHR 0x0D,
          CHR 0x1C, CHR 0x1D, CHR 0x1E, CHR 0x1F, CHR 0x20}"

definition strip :: "string \<Rightarrow> string" where
  \<comment> \<open>\<open>s.strip()\<close>\<close>
  "strip s = rev (dropWhile isspace (rev (dropWhile isspace s)))"

definition startswith :: "string \<Rightarrow> string \<Rightarrow> bool" where
  \<comment> \<open>\<open>s.startswith(p)\<close>\<close>
  "startswith s p \<longleftrightarrow> take (length p) s = p"

definition endswith :: "string \<Rightarrow> string \<Rightarrow> bool" where
  \<comment> \<open>\<open>s.endswith(p)\<close>\<close>
  "endswith s p \<longleftrightarrow> length p \<le> length s \<and> drop (length s - length p) s = p"

fun contains :: "string \<Rightarrow> string \<Rightarrow> bool" where
  \<comment> \<open>\<open>p in s\<close>, the substring test\<close>
  "contains p [] \<longleftrightarrow> p = []"
| "contains p (c # cs) \<longleftrightarrow> startswith (c # cs) p \<or> contains p cs"

fun split_from :: "string \<Rightarrow> string \<Rightarrow> string list" where
  \<comment> \<open>the scan of \<open>s.split()\<close>: \<open>word\<close> is the word being read\<close>
  "split_from word [] = (if word = [] then [] else [word])"
| "split_from word (c # cs) =
     (if isspace c then (if word = [] then split_from [] cs else word # split_from [] cs)
      else split_from (word @ [c]) cs)"

definition split :: "string \<Rightarrow> string list" where
  \<comment> \<open>\<open>s.split()\<close>: the maximal runs of characters that are not whitespace\<close>
  "split s = split_from [] s"

fun join :: "string \<Rightarrow> string list \<Rightarrow> string" where
  \<comment> \<open>\<open>sep.join(words)\<close>\<close>
  "join sep [] = []"
| "join sep [w] = w"
| "join sep (w # ws) = w @ sep @ join sep ws"

definition lower_char :: "char \<Rightarrow> char" where
  "lower_char c =
     (let n = of_char c :: nat in if 65 \<le> n \<and> n \<le> 90 then char_of (n + 32) else c)"

definition upper_char :: "char \<Rightarrow> char" where
  "upper_char c =
     (let n = of_char c :: nat in if 97 \<le> n \<and> n \<le> 122 then char_of (n - 32) else c)"

definition lower :: "string \<Rightarrow> string" where
  \<comment> \<open>\<open>s.lower()\<close>\<close>
  "lower s = map lower_char s"

definition upper :: "string \<Rightarrow> string" where
  \<comment> \<open>\<open>s.upper()\<close>\<close>
  "upper s = map upper_char s"

definition capitalize :: "string \<Rightarrow> string" where
  \<comment> \<open>\<open>s.capitalize()\<close>: the first character in upper case, all the others in lower case\<close>
  "capitalize s = (case s of [] \<Rightarrow> [] | c # cs \<Rightarrow> upper_char c # lower cs)"

definition replace_char :: "char \<Rightarrow> char \<Rightarrow> string \<Rightarrow> string" where
  \<comment> \<open>\<open>s.replace(a, b)\<close> for one-character \<open>a\<close> and \<open>b\<close>\<close>
  "replace_char a b s = map (\<lambda>c. if c = a then b else c) s"

section \<open>JSON values as Python holds them\<close>

text \<open>
  What \<open>json.loads\<close> returns and what the handlers pass around: \<open>None\<close>, \<open>bool\<close>,
  \<open>int\<close>, \<open>float\<close>, \<open>str\<close>, \<open>list\<close> and \<open>dict\<close>. A \<open>dict\<close> is an association list in
  insertion order, its keys distinct. A finite \<open>float\<close> is kept as a decimal
  \<open>Decimal m e\<close>, standing for the double nearest to \<open>m * 10 ^ e\<close>; the program only
  ever asks whether it is zero.
\<close>

datatype pyfloat = Decimal int int | NaN | Infinity | NegInfinity

datatype json =
    JNull
  | JBool bool
  | JInt int
  | JFloat pyfloat
  | JString string
  | JArray "json list"
  | JObject "(string \<times> json) list"

type_synonym dict = "(string \<times> json) list"

definition float_is_zero :: "pyfloat \<Rightarrow> bool" where
  \<comment> \<open>the nearest double is \<open>0.0\<close> or \<open>-0.0\<close>: the decimal is at most \<open>2 ^ -1075\<close> in size\<close>
  "float_is_zero f =
     (case f of
        Decimal m e \<Rightarrow>
          if 0 \<le> e then m = 0 else \<bar>m\<bar> * 2 ^ 1075 \<le> 10 ^ nat (- e)
      | _ \<Rightarrow> False)"

fun truthy :: "json \<Rightarrow> bool" where
  \<comment> \<open>\<open>bool(v)\<close>, the test of \<open>if v\<close>, \<open>not v\<close> and \<open>v or w\<close>\<close>
  "truthy JNull = False"
| "truthy (JBool b) = b"
| "truthy (JInt i) = (i \<noteq> 0)"
| "truthy (JFloat f) = (\<not> float_is_zero f)"
| "truthy (JString s) = (s \<noteq> [])"
| "truthy (JArray xs) = (xs \<noteq> [])"
| "truthy (JObject d) = (d \<noteq> [])"

fun type_name :: "json \<Rightarrow> string" where
  \<comment> \<open>\<open>type(v).__name__\<close>\<close>
  "type_name JNull = ''NoneType''"
| "type_name (JBool b) = ''bool''"
| "type_name (JInt i) = ''int''"
| "type_name (JFloat f) = ''float''"
| "type_name (JString s) = ''str''"
| "type_name (JArray xs) = ''list''"
| "type_name (JObject d) = ''dict''"

definition quoted :: "string \<Rightarrow> string" where
  "quoted s = [CHR 0x27] @ s @ [CHR 0x27]"

text \<open>
  An exception is kept as its message \<open>str(e)\<close>, which is all the handlers read of it.
  The messages the interpreter makes itself are CPython 3.11's.
\<close>

definition no_attribute :: "json \<Rightarrow> string \<Rightarrow> string" where
  \<comment> \<open>\<open>AttributeError\<close>: calling a method the value's type does not have\<close>
  "no_attribute v attr = quoted (type_name v) @ '' object has no attribute '' @ quoted attr"

definition not_iterable :: "json \<Rightarrow> string" where
  \<comment> \<open>\<open>TypeError\<close>: \<open>key in v\<close> on a value that is no container\<close>
  "not_iterable v = ''argument of type '' @ quoted (type_name v) @ '' is not iterable''"

definition dict_get :: "dict \<Rightarrow> string \<Rightarrow> json \<Rightarrow> json" where
  \<comment> \<open>\<open>d.get(key, default)\<close>; \<open>d.get(key)\<close> is \<open>dict_get d key JNull\<close>\<close>
  "dict_get d key dflt = (case map_of d key of Some v \<Rightarrow> v | None \<Rightarrow> dflt)"

definition dict_set :: "dict \<Rightarrow> string \<Rightarrow> json \<Rightarrow> dict" where
  \<comment> \<open>\<open>d[key] = v\<close>: a key already present keeps its place\<close>
  "dict_set d key v = AList.update key v d"

definition dict_merge :: "dict \<Rightarrow> dict \<Rightarrow> dict" where
  \<comment> \<open>the display \<open>{..., **d}\<close>: the entries of \<open>d\<close> stored one by one over \<open>base\<close>\<close>
  "dict_merge base d = fold (\<lambda>(key, v) acc. dict_set acc key v) d base"

fun py_slice :: "json \<Rightarrow> nat \<Rightarrow> string + json" where
  \<comment> \<open>\<open>v[:n]\<close>\<close>
  "py_slice (JString s) n = Inr (JString (take n s))"
| "py_slice (JArray xs) n = Inr (JArray (take n xs))"
| "py_slice (JObject d) n = Inl (''unhashable type: '' @ quoted ''slice'')"
| "py_slice v n = Inl (quoted (type_name v) @ '' object is not subscriptable'')"

section \<open>The model service and the retry loop\<close>

text \<open>
  One call of \<open>self.client.models.generate_content\<close> either returns a response, of
  which the program reads \<open>response.text\<close> (a string, or \<open>None\<close>), or raises an
  exception, of which the program reads \<open>str(e)\<close>. The service is outside the program:
  \<open>svc attempt\<close> is what it does at the call of loop index \<open>attempt\<close>.
\<close>

datatype call_result = Responded "string option" | Raised string

type_synonym service = "nat \<Rightarrow> call_result"

definition max_retries :: nat where
  "max_retries = 3"

definition initial_retry_delay :: nat where
  "initial_retry_delay = 2"

definition transient :: "string \<Rightarrow> bool" where
  \<comment> \<open>\<open>"503" in str(e) or "UNAVAILABLE" in str(e)\<close>\<close>
  "transient msg \<longleftrightarrow> contains ''503'' msg \<or> contains ''UNAVAILABLE'' msg"

definition unbound_response :: string where
  \<comment> \<open>what reading \<open>response\<close> raises when the loop body never ran\<close>
  "unbound_response = ''local variable 'response' referenced before assignment''"

text \<open>
  The loop \<open>for attempt in range(max_retries)\<close> of \<open>estimate_task\<close>, as a recursion over
  the attempts still to make. The state is \<open>retry_delay\<close> and the delays slept so far
  (\<open>time.sleep\<close>, in order). The result is the response text of the attempt that broke
  out of the loop, or the message of the exception that left it.
\<close>

fun retry_loop ::
  "service \<Rightarrow> nat list \<Rightarrow> nat \<Rightarrow> nat list \<Rightarrow> (string + string option) \<times> nat list"
where
  "retry_loop svc [] retry_delay slept = (Inl unbound_response, slept)"
| "retry_loop svc (attempt # rest) retry_delay slept =
     (case svc attempt of
        Responded text \<Rightarrow> (Inr text, slept)
      | Raised msg \<Rightarrow>
          if transient msg then
            if attempt < max_retries - 1 then
              retry_loop svc rest (retry_delay * 2) (slept @ [retry_delay])
            else (Inl msg, slept)
          else (Inl msg, slept))"

definition invoke :: "service \<Rightarrow> (string + string option) \<times> nat list" where
  "invoke svc = retry_loop svc [0..<max_retries] initial_retry_delay []"

section \<open>\<open>AIEstimator.estimate_task\<close>\<close>

text \<open>
  \<open>json.loads\<close> is the standard library's. On a text it returns a value, raises
  \<open>json.JSONDecodeError\<close>, or raises something else (\<open>RecursionError\<close> on deep nesting,
  for one). The model takes the decoder as the parameter \<open>loads\<close>; \<open>json_loads\<close> below
  is a decoder for ASCII texts with which the model is run on concrete replies.
\<close>

datatype loads_result = Loaded json | JSONDecodeError | OtherError string

definition fence :: string where
  \<comment> \<open>three backquotes\<close>
  "fence = [CHR 0x60, CHR 0x60, CHR 0x60]"

definition clean_response :: "string \<Rightarrow> string" where
  \<comment> \<open>lines 144 to 156: strip, remove the code-block markers, strip again\<close>
  "clean_response text =
     (let response_text = strip text;
          response_text =
            (if startswith response_text (fence @ ''json'') then drop 7 response_text
             else response_text);
          response_text =
            (if startswith response_text fence then drop 3 response_text else response_text);
          response_text =
            (if endswith response_text fence
             then take (length response_text - 3) response_text else response_text)
      in strip response_text)"

definition fallback_reasoning :: "string \<Rightarrow> string" where
  \<comment> \<open>the f-string of the \<open>JSONDecodeError\<close> handler, line by line\<close>
  "fallback_reasoning task_description =
     join [CHR 0x0A]
     [''Phase 1: Technical Breakdown'',
      ''                Overview: '' @ take 200 task_description @
        ''. Standard development workflow with modern tech stack. Requires environment setup, implementation, and deployment phases.'',
      '''',
      ''                Phase 1: Requirements Analysis and Setup'',
      ''                - Review task requirements and define scope'',
      ''                - Set up development environment and tools'',
      ''                - Create project structure and initial configuration'',
      '''',
      ''                Phase 2: Core Implementation'',
      ''                - Implement main functionality according to specifications'',
      ''                - Write comprehensive unit and integration tests'',
      ''                - Conduct code review and refactoring'',
      '''',
      ''                Phase 3: Testing and Deployment'',
      ''                - Perform end-to-end testing in staging environment'',
      ''                - Create deployment documentation and runbooks'',
      ''                - Deploy to production with monitoring setup'']"

definition failure_reasoning :: string where
  \<comment> \<open>the string of the \<open>Exception\<close> handler, line by line\<close>
  "failure_reasoning =
     join [CHR 0x0A]
     [''Phase 1: Technical Breakdown'',
      ''Overview: AI estimation service temporarily unavailable. Manual technical review required to assess scope, dependencies, and implementation approach.'',
      '''',
      ''Phase 1: Requirements Gathering'',
      ''- Conduct stakeholder meetings to clarify requirements'',
      ''- Document technical specifications and constraints'',
      ''- Identify system dependencies and integration points'',
      '''',
      ''Phase 2: Technical Planning and Design'',
      ''- Create detailed system architecture design'',
      ''- Define API contracts and data models'',
      ''- Estimate resource requirements and timeline'',
      '''',
      ''Phase 3: Implementation Strategy'',
      ''- Break down work into manageable sprints'',
      ''- Assign team members and allocate resources'',
      ''- Set up monitoring and quality assurance processes'']"

definition fallback_estimate :: "string \<Rightarrow> dict" where
  \<comment> \<open>the dict returned by the \<open>JSONDecodeError\<close> handler\<close>
  "fallback_estimate task_description =
     [(''success'', JBool True),
      (''title'', JString ''Task Needs Analysis''),
      (''estimated_time'', JString ''1 week''),
      (''priority'', JString ''Medium''),
      (''complexity_level'', JString ''Medium''),
      (''dependencies'', JArray [JString ''Initial project setup'']),
      (''required_access'',
         JArray [JString ''Development Environment Access'',
                 JString ''Version Control System (GitHub/GitLab)'',
                 JString ''Testing Environment'']),
      (''suggested_labels'', JArray [JString ''feature'', JString ''development'']),
      (''reasoning'', JString (fallback_reasoning task_description))]"

definition failure_estimate :: "string \<Rightarrow> dict" where
  \<comment> \<open>the dict returned by the \<open>Exception\<close> handler; \<open>msg\<close> is \<open>str(e)\<close>\<close>
  "failure_estimate msg =
     [(''success'', JBool False),
      (''error'', JString (''AI Generation failed: '' @ msg)),
      (''title'', JString ''Manual Review Required''),
      (''estimated_time'', JString ''Unknown''),
      (''priority'', JString ''Medium''),
      (''complexity_level'', JString ''Medium''),
      (''dependencies'', JArray [JString ''Requirements gathering needed'']),
      (''required_access'', JArray [JString ''To be determined'']),
      (''suggested_labels'', JArray [JString ''needs-analysis'']),
      (''reasoning'', JString failure_reasoning)]"

definition wrap_required_access :: "dict \<Rightarrow> dict" where
  \<comment> \<open>lines 162 to 164\<close>
  "wrap_required_access estimate_data =
     (case map_of estimate_data ''required_access'' of
        Some (JString s) \<Rightarrow> dict_set estimate_data ''required_access'' (JArray [JString s])
      | _ \<Rightarrow> estimate_data)"

text \<open>
  Lines 160 to 172, with \<open>estimate_data\<close> whatever \<open>json.loads\<close> returned. Only a
  \<open>dict\<close> gets through: on a \<open>str\<close> or a \<open>list\<close> the test \<open>'required_access' in
  estimate_data\<close> is a substring or membership test, after which indexing by a string or
  calling \<open>.get\<close> raises, and on any other value the test itself raises. None of these
  is a \<open>JSONDecodeError\<close>, so they reach the outer handler.
\<close>

fun parsed_estimate :: "json \<Rightarrow> string + dict" where
  "parsed_estimate (JObject estimate_data) =
     (let estimate_data = wrap_required_access estimate_data
      in Inr (dict_merge
                [(''success'', JBool True),
                 (''title'', dict_get estimate_data ''title'' (JString []))]
                estimate_data))"
| "parsed_estimate (JString s) =
     (if contains ''required_access'' s
      then Inl (''string indices must be integers, not '' @ quoted ''str'')
      else Inl (no_attribute (JString s) ''get''))"
| "parsed_estimate (JArray xs) =
     (if JString ''required_access'' \<in> set xs
      then Inl ''list indices must be integers or slices, not str''
      else Inl (no_attribute (JArray xs) ''get''))"
| "parsed_estimate v = Inl (not_iterable v)"

definition estimate_task :: "(string \<Rightarrow> loads_result) \<Rightarrow> service \<Rightarrow> string \<Rightarrow> dict" where
  "estimate_task loads svc task_description =
     (case fst (invoke svc) of
        Inl msg \<Rightarrow> failure_estimate msg
      | Inr None \<Rightarrow> failure_estimate (no_attribute JNull ''strip'')
      | Inr (Some text) \<Rightarrow>
          (case loads (clean_response text) of
             JSONDecodeError \<Rightarrow> fallback_estimate task_description
           | OtherError msg \<Rightarrow> failure_estimate msg
           | Loaded estimate_data \<Rightarrow>
               (case parsed_estimate estimate_data of
                  Inl msg \<Rightarrow> failure_estimate msg
                | Inr estimate \<Rightarrow> estimate)))"

section \<open>Titles and ticket identity\<close>

definition short_title :: "string \<Rightarrow> nat \<Rightarrow> string" where
  \<comment> \<open>lines 196 to 200 of \<open>generate_short_title\<close>, for a \<open>str\<close> that is not empty\<close>
  "short_title task max_words =
     (let task = strip (replace_char (CHR 0x0A) (CHR '' '') task);
          words = split task;
          short_title = join '' '' (take max_words words)
      in capitalize short_title)"

definition generate_short_title :: "json \<Rightarrow> nat \<Rightarrow> string + string" where
  \<comment> \<open>\<open>generate_short_title(task, max_words)\<close>, whatever value \<open>task\<close> is\<close>
  "generate_short_title task max_words =
     (if \<not> truthy task then Inr ''New Ticket''
      else case task of
             JString s \<Rightarrow> Inr (short_title s max_words)
           | v \<Rightarrow> Inl (no_attribute v ''replace''))"

definition resolve_title :: "json \<Rightarrow> string \<Rightarrow> string + string" where
  \<comment> \<open>lines 103 to 107 of \<open>get_ai_estimate\<close>: the value of the local \<open>title\<close>\<close>
  "resolve_title raw_title task_description =
     (case raw_title of
        JString s \<Rightarrow>
          if 3 \<le> length (split s) \<and> length (split s) \<le> 6 then Inr (strip s)
          else generate_short_title (JString task_description) 6
      | _ \<Rightarrow> generate_short_title (JString task_description) 6)"

definition hex_digit :: "nat \<Rightarrow> char" where
  "hex_digit n = (if n < 10 then char_of (48 + n) else char_of (87 + n))"

definition hex32 :: "128 word \<Rightarrow> string" where
  \<comment> \<open>\<open>'%032x' % n\<close>: 32 hexadecimal digits in lower case, the most significant first\<close>
  "hex32 n = map (\<lambda>i. hex_digit (unat (drop_bit (4 * (31 - i)) n AND 15))) [0..<32]"

definition str_uuid :: "128 word \<Rightarrow> string" where
  \<comment> \<open>\<open>str(u)\<close> for the UUID whose 128-bit integer is \<open>n\<close>\<close>
  "str_uuid n =
     (let hex = hex32 n
      in take 8 hex @ ''-'' @ take 4 (drop 8 hex) @ ''-'' @ take 4 (drop 12 hex) @ ''-''
         @ take 4 (drop 16 hex) @ ''-'' @ drop 20 hex)"

definition generate_ticket_number :: "128 word \<Rightarrow> string" where
  \<comment> \<open>\<open>generate_ticket_number()\<close>, with \<open>u\<close> the integer of the UUID that \<open>uuid.uuid4()\<close> draws\<close>
  "generate_ticket_number u = ''TKT-'' @ upper (take 8 (str_uuid u))"

text \<open>
  Modelled from the spec: \<open>TicketEstimator._generate_ticket_id\<close> of
  \<open>services/estimation_services.py\<close>, which is not among the sources. The spec (4.5)
  has it as "a deterministic derivation from the task-description text" for which
  "implementers should use a stable content hash": the hash is the parameter
  \<open>content_hash\<close>, and the identifier is its value at the text.
\<close>

definition generate_ticket_id :: "(string \<Rightarrow> string) \<Rightarrow> string \<Rightarrow> string" where
  "generate_ticket_id content_hash task_description = content_hash task_description"

section \<open>The endpoint \<open>/api/estimate\<close>\<close>

record response =
  status_code :: nat
  body :: json

definition error_response :: "nat \<Rightarrow> json \<Rightarrow> response" where
  \<comment> \<open>\<open>jsonify({'success': False, 'error': err}), code\<close>\<close>
  "error_response code err =
     \<lparr>status_code = code, body = JObject [(''success'', JBool False), (''error'', err)]\<rparr>"

definition as_list :: "json \<Rightarrow> json" where
  \<comment> \<open>\<open>if isinstance(v, str): v = [v]\<close>\<close>
  "as_list v = (case v of JString s \<Rightarrow> JArray [JString s] | _ \<Rightarrow> v)"

definition response_data ::
  "dict \<Rightarrow> string \<Rightarrow> string \<Rightarrow> string \<Rightarrow> json \<Rightarrow> json \<Rightarrow> json \<Rightarrow> json"
where
  \<comment> \<open>the dict \<open>response_data\<close> of lines 110 to 126\<close>
  "response_data ai_response ticket_id ticket_number task_description
       dependencies access_required tags =
     JObject
       [(''success'', JBool True),
        (''ticket_id'', JString ticket_id),
        (''ticket_number'', JString ticket_number),
        (''task'', JString task_description),
        (''title'', dict_get ai_response ''title'' (JString task_description)),
        (''estimate'', JObject
           [(''estimated_time'', dict_get ai_response ''estimated_time'' (JString ''Unknown'')),
            (''priority'', dict_get ai_response ''priority'' (JString ''Medium'')),
            (''complexity_level'', dict_get ai_response ''complexity_level'' (JString ''Medium'')),
            (''dependencies'', dependencies),
            (''required_access'', access_required),
            (''suggested_labels'', tags),
            (''reasoning'', dict_get ai_response ''reasoning'' (JString []))])]"

text \<open>
  The body of the \<open>try\<close> of \<open>get_ai_estimate\<close>: \<open>Inl msg\<close> is an exception with message
  \<open>msg\<close>. \<open>data\<close> is what \<open>request.get_json()\<close> returned, \<open>u\<close> the UUID that
  \<open>generate_ticket_number\<close> would draw. The debugging output is left out, but for the
  slice \<open>ai_response.get('reasoning', '')[:100]\<close> of line 78, which raises on a value
  that cannot be sliced. The local \<open>title\<close> is computed and then not used: the response
  takes its title from \<open>ai_response\<close>.
\<close>

definition estimate_request ::
  "(string \<Rightarrow> loads_result) \<Rightarrow> service \<Rightarrow> (string \<Rightarrow> string) \<Rightarrow> 128 word \<Rightarrow> json
     \<Rightarrow> string + response"
where
  "estimate_request loads svc content_hash u data =
     (case data of
        JObject d \<Rightarrow>
          (case dict_get d ''task'' (JString []) of
             JString task \<Rightarrow>
               (let task_description = strip task
                in if task_description = []
                   then Inr (error_response 400 (JString ''Task description is required''))
                   else
                     (let ai_response = estimate_task loads svc task_description
                      in case py_slice (dict_get ai_response ''reasoning'' (JString [])) 100 of
                           Inl msg \<Rightarrow> Inl msg
                         | Inr shown \<Rightarrow>
                             if truthy (dict_get ai_response ''success'' JNull) then
                               (let ticket_id = generate_ticket_id content_hash task_description;
                                    ticket_number = generate_ticket_number u;
                                    tags =
                                      as_list (dict_get ai_response ''suggested_labels'' (JArray []));
                                    access_required =
                                      as_list (dict_get ai_response ''required_access'' (JArray []));
                                    dependencies =
                                      as_list (dict_get ai_response ''dependencies'' (JArray []));
                                    raw_title = dict_get ai_response ''title'' JNull
                                in case resolve_title raw_title task_description of
                                     Inl msg \<Rightarrow> Inl msg
                                   | Inr title \<Rightarrow>
                                       Inr \<lparr>status_code = 200,
                                            body = response_data ai_response ticket_id
                                              ticket_number task_description dependencies
                                              access_required tags\<rparr>)
                             else
                               Inr (error_response 500
                                      (dict_get ai_response ''error''
                                         (JString ''AI generation failed'')))))
           | v \<Rightarrow> Inl (no_attribute v ''strip''))
      | v \<Rightarrow> Inl (no_attribute v ''get''))"

definition get_ai_estimate ::
  "(string \<Rightarrow> loads_result) \<Rightarrow> service \<Rightarrow> (string \<Rightarrow> string) \<Rightarrow> 128 word \<Rightarrow> json
     \<Rightarrow> response"
where
  \<comment> \<open>the \<open>try\<close> with its handler: an exception becomes a 500 response carrying \<open>str(e)\<close>\<close>
  "get_ai_estimate loads svc content_hash u data =
     (case estimate_request loads svc content_hash u data of
        Inl msg \<Rightarrow> error_response 500 (JString msg)
      | Inr r \<Rightarrow> r)"

section \<open>The endpoint \<open>/api/create-ticket\<close>\<close>

text \<open>
  A \<open>KanbanTicket\<close> with the fields the handler sets. The class and the database
  session are in \<open>models.py\<close>, which is not among the sources: the store is the list of
  the tickets committed so far, \<open>store_error ticket db\<close> is the message of the
  exception that constructing, adding or committing the ticket raises, if any, and
  \<open>to_dict\<close> is the method of that name.
\<close>

record ticket =
  ticket_id :: json
  ticket_number :: json
  title :: json
  description :: json
  status :: string
  priority :: string
  estimated_time :: json
  tags :: json
  access_required :: json
  dependencies :: json



section \<open>A decoder for ASCII JSON texts\<close>

text \<open>
  \<open>json_loads\<close> follows the scanner of Python's \<open>json\<close> module on ASCII text: the
  whitespace around values, the literals (with Python's \<open>NaN\<close>, \<open>Infinity\<close> and
  \<open>-Infinity\<close>), numbers, strings with their escapes (a \<open>\u\<close> escape gives the
  character of that code, exact below 256), arrays and objects, a repeated key keeping
  its last value. It never returns \<open>OtherError\<close>: the interpreter's limits on nesting
  depth and on the digits of an integer are not part of it. The recursion is on a
  counter that starts above the length of the text and so does not run out.
\<close>

definition json_ws :: "char \<Rightarrow> bool" where
  "json_ws c \<longleftrightarrow> c \<in> {CHR '' '', CHR 0x09, CHR 0x0A, CHR 0x0D}"

definition skip_ws :: "string \<Rightarrow> string" where
  "skip_ws s = dropWhile json_ws s"

definition is_digit :: "char \<Rightarrow> bool" where
  "is_digit c \<longleftrightarrow> 48 \<le> (of_char c :: nat) \<and> (of_char c :: nat) \<le> 57"

definition digits_value :: "string \<Rightarrow> nat" where
  "digits_value ds = fold (\<lambda>c n. 10 * n + (of_char c - 48)) ds 0"

definition hex_value :: "char \<Rightarrow> nat option" where
  "hex_value c =
     (let n = of_char c :: nat
      in if 48 \<le> n \<and> n \<le> 57 then Some (n - 48)
         else if 97 \<le> n \<and> n \<le> 102 then Some (n - 87)
         else if 65 \<le> n \<and> n \<le> 70 then Some (n - 55)
         else None)"

definition hex4 :: "string \<Rightarrow> nat option" where
  \<comment> \<open>the code of the four hexadecimal digits after \<open>\u\<close>\<close>
  "hex4 s =
     (case map hex_value (take 4 s) of
        [Some a, Some b, Some c, Some d] \<Rightarrow> Some (((a * 16 + b) * 16 + c) * 16 + d)
      | _ \<Rightarrow> None)"

definition escape_char :: "char \<Rightarrow> char option" where
  "escape_char e =
     (if e = CHR 0x22 then Some (CHR 0x22)
      else if e = CHR 0x5C then Some (CHR 0x5C)
      else if e = CHR ''/'' then Some (CHR ''/'')
      else if e = CHR ''b'' then Some (CHR 0x08)
      else if e = CHR ''f'' then Some (CHR 0x0C)
      else if e = CHR ''n'' then Some (CHR 0x0A)
      else if e = CHR ''r'' then Some (CHR 0x0D)
      else if e = CHR ''t'' then Some (CHR 0x09)
      else None)"

fun scan_string :: "string \<Rightarrow> string \<Rightarrow> (string \<times> string) option" where
  \<comment> \<open>after the opening quote: the string read and the text after the closing quote\<close>
  "scan_string acc [] = None"
| "scan_string acc (c # cs) =
     (if c = CHR 0x22 then Some (acc, cs)
      else if c = CHR 0x5C then
        (case cs of
           [] \<Rightarrow> None
         | e # cs' \<Rightarrow>
             if e = CHR ''u'' then
               (case hex4 cs' of
                  None \<Rightarrow> None
                | Some n \<Rightarrow> scan_string (acc @ [char_of n]) (drop 4 cs'))
             else
               (case escape_char e of
                  None \<Rightarrow> None
                | Some x \<Rightarrow> scan_string (acc @ [x]) cs'))
      else if (of_char c :: nat) < 32 then None
      else scan_string (acc @ [c]) cs)"

definition scan_int :: "string \<Rightarrow> (string \<times> string) option" where
  \<comment> \<open>the digits matched by \<open>0|[1-9]\d*\<close> and the text after them\<close>
  "scan_int s =
     (case s of
        [] \<Rightarrow> None
      | c # cs \<Rightarrow>
          if c = CHR ''0'' then Some ([c], cs)
          else if is_digit c then Some (takeWhile is_digit s, dropWhile is_digit s)
          else None)"

definition scan_frac :: "string \<Rightarrow> string \<times> string" where
  \<comment> \<open>the digits matched by \<open>(\.\d+)?\<close>, none when it matches nothing\<close>
  "scan_frac s =
     (case s of
        c # d # cs \<Rightarrow>
          if c = CHR ''.'' \<and> is_digit d
          then (takeWhile is_digit (d # cs), dropWhile is_digit (d # cs))
          else ([], s)
      | _ \<Rightarrow> ([], s))"

definition scan_exp :: "string \<Rightarrow> int option \<times> string" where
  \<comment> \<open>the exponent matched by \<open>([eE][-+]?\d+)?\<close>\<close>
  "scan_exp s =
     (case s of
        [] \<Rightarrow> (None, s)
      | c # cs \<Rightarrow>
          if c = CHR ''e'' \<or> c = CHR ''E'' then
            (let (negative, ds) =
                   (case cs of
                      [] \<Rightarrow> (False, cs)
                    | x # xs \<Rightarrow>
                        if x = CHR ''-'' then (True, xs)
                        else if x = CHR ''+'' then (False, xs)
                        else (False, cs))
             in case ds of
                  [] \<Rightarrow> (None, s)
                | d # _ \<Rightarrow>
                    if is_digit d then
                      (let e = int (digits_value (takeWhile is_digit ds))
                       in (Some (if negative then - e else e), dropWhile is_digit ds))
                    else (None, s))
          else (None, s))"

definition scan_number :: "string \<Rightarrow> (json \<times> string) option" where
  \<comment> \<open>an \<open>int\<close> when there is neither fraction nor exponent, a \<open>float\<close> otherwise\<close>
  "scan_number s =
     (let (negative, s1) =
            (case s of
               [] \<Rightarrow> (False, s)
             | c # cs \<Rightarrow> if c = CHR ''-'' then (True, cs) else (False, s))
      in case scan_int s1 of
           None \<Rightarrow> None
         | Some (integer, s2) \<Rightarrow>
             (let (frac, s3) = scan_frac s2;
                  (exp, s4) = scan_exp s3;
                  sign = (if negative then - 1 else 1 :: int)
              in if frac = [] \<and> exp = None
                 then Some (JInt (sign * int (digits_value integer)), s4)
                 else Some (JFloat (Decimal (sign * int (digits_value (integer @ frac)))
                                      ((case exp of None \<Rightarrow> 0 | Some e \<Rightarrow> e) - int (length frac))),
                            s4)))"

fun parse_value :: "nat \<Rightarrow> string \<Rightarrow> (json \<times> string) option"
  and parse_members :: "nat \<Rightarrow> dict \<Rightarrow> string \<Rightarrow> (dict \<times> string) option"
  and parse_elements :: "nat \<Rightarrow> json list \<Rightarrow> string \<Rightarrow> (json list \<times> string) option"
where
  "parse_value 0 s = None"
| "parse_value (Suc n) s =
     (case s of
        [] \<Rightarrow> None
      | c # cs \<Rightarrow>
          if c = CHR 0x22 then
            (case scan_string [] cs of
               None \<Rightarrow> None
             | Some (str, rest) \<Rightarrow> Some (JString str, rest))
          else if c = CHR ''{'' then
            (case skip_ws cs of
               [] \<Rightarrow> None
             | x # rest \<Rightarrow>
                 if x = CHR ''}'' then Some (JObject [], rest)
                 else (case parse_members n [] (x # rest) of
                         None \<Rightarrow> None
                       | Some (d, rest') \<Rightarrow> Some (JObject d, rest')))
          else if c = CHR ''['' then
            (case skip_ws cs of
               [] \<Rightarrow> None
             | x # rest \<Rightarrow>
                 if x = CHR '']'' then Some (JArray [], rest)
                 else (case parse_elements n [] (x # rest) of
                         None \<Rightarrow> None
                       | Some (xs, rest') \<Rightarrow> Some (JArray xs, rest')))
          else if startswith s ''null'' then Some (JNull, drop 4 s)
          else if startswith s ''true'' then Some (JBool True, drop 4 s)
          else if startswith s ''false'' then Some (JBool False, drop 5 s)
          else
            (case scan_number s of
               Some r \<Rightarrow> Some r
             | None \<Rightarrow>
                 if startswith s ''NaN'' then Some (JFloat NaN, drop 3 s)
                 else if startswith s ''Infinity'' then Some (JFloat Infinity, drop 8 s)
                 else if startswith s ''-Infinity'' then Some (JFloat NegInfinity, drop 9 s)
                 else None))"
| "parse_members 0 acc s = None"
| "parse_members (Suc n) acc s =
     (case s of
        [] \<Rightarrow> None
      | q # cs \<Rightarrow>
          if q = CHR 0x22 then
            (case scan_string [] cs of
               None \<Rightarrow> None
             | Some (key, rest) \<Rightarrow>
                 (case skip_ws rest of
                    [] \<Rightarrow> None
                  | colon # rest' \<Rightarrow>
                      if colon = CHR '':'' then
                        (case parse_value n (skip_ws rest') of
                           None \<Rightarrow> None
                         | Some (v, rest'') \<Rightarrow>
                             (case skip_ws rest'' of
                                [] \<Rightarrow> None
                              | x # r \<Rightarrow>
                                  if x = CHR ''}'' then Some (dict_set acc key v, r)
                                  else if x = CHR '','' then
                                    parse_members n (dict_set acc key v) (skip_ws r)
                                  else None))
                      else None))
          else None)"
| "parse_elements 0 acc s = None"
| "parse_elements (Suc n) acc s =
     (case parse_value n s of
        None \<Rightarrow> None
      | Some (v, rest) \<Rightarrow>
          (case skip_ws rest of
             [] \<Rightarrow> None
           | x # r \<Rightarrow>
               if x = CHR '']'' then Some (acc @ [v], r)
               else if x = CHR '','' then parse_elements n (acc @ [v]) (skip_ws r)
               else None))"

definition json_loads :: "string \<Rightarrow> loads_result" where
  "json_loads s =
     (case parse_value (Suc (length s)) (skip_ws s) of
        None \<Rightarrow> JSONDecodeError
      | Some (v, rest) \<Rightarrow> if skip_ws rest = [] then Loaded v else JSONDecodeError)"

section \<open>The application: two routes over one ticket store\<close>



section \<open>Reading results\<close>

definition response_field :: "response \<Rightarrow> string \<Rightarrow> json option" where
  \<comment> \<open>the value under a key of the response body, when the body has the key\<close>
  "response_field r key = (case body r of JObject b \<Rightarrow> map_of b key | _ \<Rightarrow> None)"

definition estimate_field :: "response \<Rightarrow> string \<Rightarrow> json option" where
  \<comment> \<open>the value under a key of the body's \<open>estimate\<close> object\<close>
  "estimate_field r key =
     (case response_field r ''estimate'' of Some (JObject e) \<Rightarrow> map_of e key | _ \<Rightarrow> None)"

definition is_string :: "json \<Rightarrow> bool" where
  "is_string v = (case v of JString s \<Rightarrow> True | _ \<Rightarrow> False)"

definition is_string_array :: "json \<Rightarrow> bool" where
  "is_string_array v = (case v of JArray xs \<Rightarrow> list_all is_string xs | _ \<Rightarrow> False)"


definition hex_upper :: "char \<Rightarrow> bool" where
  \<comment> \<open>a hexadecimal digit, the letters in upper case\<close>
  "hex_upper c \<longleftrightarrow> c \<in> set ''0123456789ABCDEF''"

definition ticket_number_format :: "string \<Rightarrow> bool" where
  \<comment> \<open>\<open>TKT-XXXXXXXX\<close>\<close>
  "ticket_number_format s \<longleftrightarrow>
     length s = 12 \<and> take 4 s = ''TKT-'' \<and> list_all hex_upper (drop 4 s)"

definition has_upper :: "string \<Rightarrow> bool" where
  \<comment> \<open>some character is an ASCII letter in upper case\<close>
  "has_upper s \<longleftrightarrow> list_ex (\<lambda>c. 65 \<le> (of_char c :: nat) \<and> (of_char c :: nat) \<le> 90) s"

section \<open>Concrete inputs\<close>

definition svc_reply :: "string \<Rightarrow> service" where
  \<comment> \<open>a service that answers every call with the same text\<close>
  "svc_reply text attempt = Responded (Some text)"

definition svc_flaky :: service where
  \<comment> \<open>unavailable twice, then answering\<close>
  "svc_flaky attempt =
     (if attempt < 2 then Raised ''503 UNAVAILABLE'' else Responded (Some ''ok''))"



definition fenced :: "string \<Rightarrow> string" where
  \<comment> \<open>a text inside a \<open>json\<close> code block\<close>
  "fenced text = fence @ ''json'' @ [CHR 0x0A] @ text @ [CHR 0x0A] @ fence"

definition reply_null_dependencies :: string where
  \<open>reply_null_dependencies = ''{"dependencies": null}''\<close>

definition reply_success_false :: string where
  \<open>reply_success_false = ''{"success": false, "error": "quota"}''\<close>

definition reply_short_title :: string where
  \<open>reply_short_title = ''{"title": "Fix"}''\<close>

definition reply_good :: string where
  \<open>reply_good =
     ''{"title": "Add user email login", "priority": "High", "required_access": "GitHub"}''\<close>


definition task_login :: string where
  "task_login = ''Add user login with email and password''"





definition request_own_number :: json where
  "request_own_number = JObject [(''ticket_number'', JString ''abc''), (''edited_priority'', JString ''High'')]"

definition request_no_number :: json where
  "request_no_number = JObject [(''title'', JString ''Add user email login'')]"

definition emitted :: "dict \<Rightarrow> (string \<Rightarrow> string) \<Rightarrow> 128 word \<Rightarrow> string \<Rightarrow> response" where
  \<comment> \<open>the response of \<open>get_ai_estimate\<close> when it emits an estimate\<close>
  "emitted ai_response content_hash u task_description =
     \<lparr>status_code = 200,
      body = response_data ai_response (generate_ticket_id content_hash task_description)
        (generate_ticket_number u) task_description
        (as_list (dict_get ai_response ''dependencies'' (JArray [])))
        (as_list (dict_get ai_response ''required_access'' (JArray [])))
        (as_list (dict_get ai_response ''suggested_labels'' (JArray [])))\<rparr>"

section \<open>Properties of the retry loop\<close>

lemma attempts_unfold: "[0..<max_retries] = [0, 1, 2]"
  by (simp add: max_retries_def upt_rec)

lemma invoke_cases:
  "invoke svc =
     (case svc 0 of
        Responded t \<Rightarrow> (Inr t, [])
      | Raised e0 \<Rightarrow>
          if \<not> transient e0 then (Inl e0, [])
          else (case svc 1 of
                  Responded t \<Rightarrow> (Inr t, [2])
                | Raised e1 \<Rightarrow>
                    if \<not> transient e1 then (Inl e1, [2])
                    else (case svc 2 of
                            Responded t \<Rightarrow> (Inr t, [2, 4])
                          | Raised e2 \<Rightarrow> (Inl e2, [2, 4]))))"
  unfolding invoke_def attempts_unfold initial_retry_delay_def
  by (simp add: max_retries_def split: call_result.splits)

text \<open>
  C3. The retry loop makes at most 3 attempts (the result does not depend on what the
  service would do at a fourth call); it sleeps only after a transient failure that is
  not the last attempt, first 2 and then 4 time units; a failure that is not transient
  leaves the loop at once with its own message, without another delay; three transient
  failures leave it with the message of the third; and when attempts 1 and 2 fail
  transiently and attempt 3 responds, that response is returned after exactly the two
  delays 2 and 4, the second greater than the first.
\<close>

theorem invoke_retry_policy:
  "(\<forall>svc'. svc' 0 = svc 0 \<and> svc' 1 = svc 1 \<and> svc' 2 = svc 2 \<longrightarrow> invoke svc' = invoke svc)
   \<and> snd (invoke svc) \<in> {[], [2], [2, 4]}
   \<and> (svc 0 = Responded t \<longrightarrow> invoke svc = (Inr t, []))
   \<and> (svc 0 = Raised e \<and> \<not> transient e \<longrightarrow> invoke svc = (Inl e, []))
   \<and> (svc 0 = Raised e0 \<and> transient e0 \<and> svc 1 = Responded t \<longrightarrow> invoke svc = (Inr t, [2]))
   \<and> (svc 0 = Raised e0 \<and> transient e0 \<and> svc 1 = Raised e \<and> \<not> transient e
        \<longrightarrow> invoke svc = (Inl e, [2]))
   \<and> (svc 0 = Raised e0 \<and> transient e0 \<and> svc 1 = Raised e1 \<and> transient e1
        \<and> svc 2 = Responded t \<longrightarrow> invoke svc = (Inr t, [2, 4]) \<and> (2::nat) < 4)
   \<and> (svc 0 = Raised e0 \<and> transient e0 \<and> svc 1 = Raised e1 \<and> transient e1
        \<and> svc 2 = Raised e \<longrightarrow> invoke svc = (Inl e, [2, 4]))"
proof (intro conjI allI impI)
  fix svc' :: service
  assume "svc' 0 = svc 0 \<and> svc' 1 = svc 1 \<and> svc' 2 = svc 2"
  then have "svc' 0 = svc 0" and "svc' 1 = svc 1" and "svc' 2 = svc 2"
    by blast+
  then show "invoke svc' = invoke svc"
    by (simp only: invoke_cases)
next
  show "snd (invoke svc) \<in> {[], [2], [2, 4]}"
    by (simp add: invoke_cases split: call_result.splits)
next
  assume "svc 0 = Responded t"
  then show "invoke svc = (Inr t, [])"
    by (simp add: invoke_cases)
next
  assume "svc 0 = Raised e \<and> \<not> transient e"
  then show "invoke svc = (Inl e, [])"
    by (simp add: invoke_cases)
next
  assume "svc 0 = Raised e0 \<and> transient e0 \<and> svc 1 = Responded t"
  then show "invoke svc = (Inr t, [2])"
    by (simp add: invoke_cases)
next
  assume "svc 0 = Raised e0 \<and> transient e0 \<and> svc 1 = Raised e \<and> \<not> transient e"
  then show "invoke svc = (Inl e, [2])"
    by (simp add: invoke_cases)
next
  assume "svc 0 = Raised e0 \<and> transient e0 \<and> svc 1 = Raised e1 \<and> transient e1
    \<and> svc 2 = Responded t"
  then show "invoke svc = (Inr t, [2, 4])"
    by (simp add: invoke_cases)
next
  show "(2::nat) < 4"
    by simp
next
  assume "svc 0 = Raised e0 \<and> transient e0 \<and> svc 1 = Raised e1 \<and> transient e1
    \<and> svc 2 = Raised e"
  then show "invoke svc = (Inl e, [2, 4])"
    by (simp add: invoke_cases)
qed

lemma transient_503: "transient ''503 UNAVAILABLE''"
  by (simp add: transient_def startswith_def)

lemma not_transient_400: "\<not> transient ''400 INVALID_ARGUMENT''"
  by (simp add: transient_def startswith_def)

theorem invoke_retry_policy_witness:
  "transient ''503 UNAVAILABLE'' \<and> \<not> transient ''400 INVALID_ARGUMENT''
   \<and> invoke svc_flaky = (Inr (Some ''ok''), [2, 4])
   \<and> invoke (\<lambda>n. Raised ''400 INVALID_ARGUMENT'') = (Inl ''400 INVALID_ARGUMENT'', [])
   \<and> invoke (\<lambda>n. Raised ''503 UNAVAILABLE'') = (Inl ''503 UNAVAILABLE'', [2, 4])"
  using
    invoke_retry_policy [of svc_flaky "Some ''ok''" "''503 UNAVAILABLE''"
      "''503 UNAVAILABLE''" "''503 UNAVAILABLE''", THEN conjunct2]
    invoke_retry_policy [of "\<lambda>n. Raised ''400 INVALID_ARGUMENT''" undefined
      "''400 INVALID_ARGUMENT''", THEN conjunct2]
    invoke_retry_policy [of "\<lambda>n. Raised ''503 UNAVAILABLE''" undefined
      "''503 UNAVAILABLE''" "''503 UNAVAILABLE''" "''503 UNAVAILABLE''", THEN conjunct2]
  by (simp add: svc_flaky_def transient_503 not_transient_400)

section \<open>Properties of \<open>estimate_task\<close>\<close>

lemma map_of_dict_merge:
  "distinct (map fst d) \<Longrightarrow> map_of (dict_merge base d) = map_of base ++ map_of d"
proof (induction d arbitrary: base)
  case Nil
  then show ?case by (simp add: dict_merge_def)
next
  case (Cons p d)
  obtain k v where p: "p = (k, v)" by (cases p)
  from Cons.prems p have fresh: "k \<notin> dom (map_of d)" and dist: "distinct (map fst d)"
    by (auto simp: dom_map_of_conv_image_fst)
  have "map_of (dict_merge base (p # d)) = map_of (dict_merge (dict_set base k v) d)"
    by (simp add: dict_merge_def p)
  also have "\<dots> = map_of (dict_set base k v) ++ map_of d"
    using Cons.IH [OF dist] .
  also have "\<dots> = (map_of base)(k \<mapsto> v) ++ map_of d"
    by (simp add: dict_set_def update_conv')
  also have "\<dots> = (map_of base ++ map_of d)(k \<mapsto> v)"
    using fresh by (rule map_add_upd_left)
  also have "\<dots> = map_of base ++ map_of (p # d)"
    by (simp add: p)
  finally show ?case .
qed

lemma map_of_wrap_required_access:
  "map_of (wrap_required_access d) =
     (case map_of d ''required_access'' of
        Some (JString s) \<Rightarrow> (map_of d)(''required_access'' \<mapsto> JArray [JString s])
      | _ \<Rightarrow> map_of d)"
  by (simp add: wrap_required_access_def dict_set_def update_conv'
      split: option.splits json.splits)

lemma keys_wrap_required_access:
  "map fst (wrap_required_access d) = map fst d"
  by (auto simp: wrap_required_access_def dict_set_def update_keys
      split: option.splits json.splits dest: map_of_SomeD
      intro: rev_image_eqI)

lemma estimate_task_parsed:
  assumes "fst (invoke svc) = Inr (Some text)"
    and "loads (clean_response text) = Loaded (JObject d)"
  shows "estimate_task loads svc task =
           dict_merge [(''success'', JBool True),
                       (''title'', dict_get (wrap_required_access d) ''title'' (JString []))]
             (wrap_required_access d)"
  using assms by (simp add: estimate_task_def Let_def)




lemma map_of_estimate_task_parsed:
  assumes "fst (invoke svc) = Inr (Some text)"
    and "loads (clean_response text) = Loaded (JObject d)"
    and "distinct (map fst d)"
  shows "map_of (estimate_task loads svc task) key =
           (case map_of (wrap_required_access d) key of
              Some v \<Rightarrow> Some v
            | None \<Rightarrow>
                if key = ''success'' then Some (JBool True)
                else if key = ''title'' then Some (JString [])
                else None)"
proof -
  have "distinct (map fst (wrap_required_access d))"
    using assms(3) by (simp add: keys_wrap_required_access)
  then show ?thesis
    using assms(1,2)
    by (simp add: estimate_task_parsed map_of_dict_merge map_add_def dict_get_def
        split: option.splits)
qed




lemma invoke_svc_reply: "fst (invoke (svc_reply text)) = Inr (Some text)"
  by (simp add: invoke_cases svc_reply_def)



text \<open>
  C10. On a reply that parses to an object, the result is the display
  \<open>{"success": True, "title": ..., **estimate_data}\<close>: every key of the parsed object
  (with \<open>required_access\<close> wrapped when it is a string) carries the object's value in
  the result. So a \<open>success\<close> or an \<open>error\<close> key of the reply is the one returned, and
  \<open>success\<close> is \<open>True\<close> only for want of such a key.
\<close>

theorem parsed_reply_overrides:
  assumes "fst (invoke svc) = Inr (Some text)"
    and "loads (clean_response text) = Loaded (JObject d)"
    and "distinct (map fst d)"
  shows "estimate_task loads svc task =
           dict_merge [(''success'', JBool True),
                       (''title'', dict_get (wrap_required_access d) ''title'' (JString []))]
             (wrap_required_access d)
    \<and> (\<forall>key v. map_of (wrap_required_access d) key = Some v
          \<longrightarrow> map_of (estimate_task loads svc task) key = Some v)
    \<and> (\<forall>v. map_of d ''success'' = Some v
          \<longrightarrow> map_of (estimate_task loads svc task) ''success'' = Some v)
    \<and> (\<forall>v. map_of d ''error'' = Some v
          \<longrightarrow> map_of (estimate_task loads svc task) ''error'' = Some v)
    \<and> (map_of d ''success'' = None
          \<longrightarrow> map_of (estimate_task loads svc task) ''success'' = Some (JBool True))"
proof (intro conjI allI impI)
  show "estimate_task loads svc task =
           dict_merge [(''success'', JBool True),
                       (''title'', dict_get (wrap_required_access d) ''title'' (JString []))]
             (wrap_required_access d)"
    using assms(1,2) by (rule estimate_task_parsed)
next
  fix key v
  assume "map_of (wrap_required_access d) key = Some v"
  then show "map_of (estimate_task loads svc task) key = Some v"
    by (simp add: map_of_estimate_task_parsed [of svc "text" loads d, OF assms])
next
  fix v
  assume "map_of d ''success'' = Some v"
  then have "map_of (wrap_required_access d) ''success'' = Some v"
    by (simp add: map_of_wrap_required_access split: option.splits json.splits)
  then show "map_of (estimate_task loads svc task) ''success'' = Some v"
    by (simp add: map_of_estimate_task_parsed [of svc "text" loads d, OF assms])
next
  fix v
  assume "map_of d ''error'' = Some v"
  then have "map_of (wrap_required_access d) ''error'' = Some v"
    by (simp add: map_of_wrap_required_access split: option.splits json.splits)
  then show "map_of (estimate_task loads svc task) ''error'' = Some v"
    by (simp add: map_of_estimate_task_parsed [of svc "text" loads d, OF assms])
next
  assume "map_of d ''success'' = None"
  then have "map_of (wrap_required_access d) ''success'' = None"
    by (simp add: map_of_wrap_required_access split: option.splits json.splits)
  then show "map_of (estimate_task loads svc task) ''success'' = Some (JBool True)"
    by (simp add: map_of_estimate_task_parsed [of svc "text" loads d, OF assms])
qed

lemma loads_reply_success_false:
  "json_loads (clean_response reply_success_false) =
     Loaded (JObject [(''success'', JBool False), (''error'', JString ''quota'')])"
  by code_simp

theorem parsed_reply_overrides_witness:
  "fst (invoke (svc_reply reply_success_false)) = Inr (Some reply_success_false)
   \<and> json_loads (clean_response reply_success_false) =
       Loaded (JObject [(''success'', JBool False), (''error'', JString ''quota'')])
   \<and> distinct (map fst [(''success'', JBool False), (''error'', JString ''quota'')])
   \<and> map_of (estimate_task json_loads (svc_reply reply_success_false) task_login) ''success''
       = Some (JBool False)
   \<and> map_of (estimate_task json_loads (svc_reply reply_success_false) task_login) ''error''
       = Some (JString ''quota'')"
proof -
  have dist: "distinct (map fst [(''success'', JBool False), (''error'', JString ''quota'')])"
    by simp
  note th = parsed_reply_overrides [of "svc_reply reply_success_false" reply_success_false
      json_loads "[(''success'', JBool False), (''error'', JString ''quota'')]" task_login,
      OF invoke_svc_reply loads_reply_success_false dist]
  from th have s: "map_of [(''success'', JBool False), (''error'', JString ''quota'')] ''success''
        = Some (JBool False)
      \<longrightarrow> map_of (estimate_task json_loads (svc_reply reply_success_false) task_login)
            ''success'' = Some (JBool False)"
    by blast
  from th have e: "map_of [(''success'', JBool False), (''error'', JString ''quota'')] ''error''
        = Some (JString ''quota'')
      \<longrightarrow> map_of (estimate_task json_loads (svc_reply reply_success_false) task_login)
            ''error'' = Some (JString ''quota'')"
    by blast
  from s e
  have "map_of (estimate_task json_loads (svc_reply reply_success_false) task_login) ''success''
          = Some (JBool False)"
    and "map_of (estimate_task json_loads (svc_reply reply_success_false) task_login) ''error''
          = Some (JString ''quota'')"
    by simp_all
  then show ?thesis
    using invoke_svc_reply [of reply_success_false] loads_reply_success_false dist by blast
qed

section \<open>Properties of \<open>get_ai_estimate\<close>\<close>

lemma generate_short_title_str:
  "generate_short_title (JString s) n = Inr (if s = [] then ''New Ticket'' else short_title s n)"
  by (simp add: generate_short_title_def)

lemma resolve_title_total: "\<exists>t. resolve_title raw_title task_description = Inr t"
  by (simp add: resolve_title_def generate_short_title_str split: json.splits)

lemma estimate_request_task:
  assumes "dict_get d ''task'' (JString []) = JString t" and "strip t \<noteq> []"
  shows "estimate_request loads svc content_hash u (JObject d) =
    (case py_slice (dict_get (estimate_task loads svc (strip t)) ''reasoning'' (JString [])) 100 of
       Inl msg \<Rightarrow> Inl msg
     | Inr shown \<Rightarrow>
         if truthy (dict_get (estimate_task loads svc (strip t)) ''success'' JNull)
         then Inr (emitted (estimate_task loads svc (strip t)) content_hash u (strip t))
         else Inr (error_response 500
                (dict_get (estimate_task loads svc (strip t)) ''error''
                   (JString ''AI generation failed''))))"
proof -
  obtain ttl where "resolve_title (dict_get (estimate_task loads svc (strip t)) ''title'' JNull)
      (strip t) = Inr ttl"
    using resolve_title_total by blast
  then show ?thesis
    using assms by (simp add: estimate_request_def Let_def emitted_def split: sum.splits)
qed

lemma get_ai_estimate_emitted:
  assumes "status_code (get_ai_estimate loads svc content_hash u data) = 200"
  shows "\<exists>d t. data = JObject d \<and> dict_get d ''task'' (JString []) = JString t \<and> strip t \<noteq> []
    \<and> truthy (dict_get (estimate_task loads svc (strip t)) ''success'' JNull)
    \<and> (\<exists>shown. py_slice (dict_get (estimate_task loads svc (strip t)) ''reasoning'' (JString []))
          100 = Inr shown)
    \<and> get_ai_estimate loads svc content_hash u data =
        emitted (estimate_task loads svc (strip t)) content_hash u (strip t)"
proof (cases data)
  case (JObject d)
  show ?thesis
  proof (cases "dict_get d ''task'' (JString [])")
    case (JString t)
    show ?thesis
    proof (cases "strip t = []")
      case True
      with JObject JString assms show ?thesis
        by (simp add: get_ai_estimate_def estimate_request_def error_response_def)
    next
      case False
      note req = estimate_request_task [OF JString False, of loads svc content_hash u]
      show ?thesis
        using assms JObject JString False
        by (auto simp: get_ai_estimate_def req error_response_def split: sum.splits if_splits)
    qed
  qed (use JObject assms in \<open>simp_all add: get_ai_estimate_def estimate_request_def error_response_def\<close>)
qed (use assms in \<open>simp_all add: get_ai_estimate_def estimate_request_def error_response_def\<close>)







end
